theory Spec2Isabelle
  imports Complex_Main "HOL-Library.Word"
begin

section \<open>Metadata extraction and privacy stripping (app/extractor.py)\<close>

text \<open>
  A shallow embedding of \<^verbatim>\<open>app/extractor.py\<close>. The third-party decoders the module
  calls (libmagic, Pillow, exifread, PyPDF2, python-docx, mutagen) are not part of the
  repository; they are the fields of the record \<open>env\<close>, and every one of these calls
  may raise (\<open>Inl\<close> carries \<^verbatim>\<open>str(e)\<close> of the exception), whether the source guards
  it with \<^verbatim>\<open>try\<close> or not.
  Python floats are idealised as exact reals; Python ints are \<open>int\<close>.
\<close>

subsection \<open>Python values\<close>

type_synonym bytes = "8 word list"

text \<open>The text \<^verbatim>\<open>str(e)\<close> of an exception raised by a decoder.\<close>

type_synonym exn = string

text \<open>\<^verbatim>\<open>raise RuntimeError(msg)\<close>, the one exception the module raises itself.\<close>

datatype error = RuntimeError string

text \<open>\<^verbatim>\<open>s.startswith(p)\<close> and \<^verbatim>\<open>sub in s\<close> on strings.\<close>

definition startswith :: "string \<Rightarrow> string \<Rightarrow> bool" where
  "startswith s p = (take (length p) s = p)"

fun str_in :: "string \<Rightarrow> string \<Rightarrow> bool" where
  "str_in sub [] = (sub = [])"
| "str_in sub (c # cs) = (startswith (c # cs) sub \<or> str_in sub cs)"

text \<open>\<^verbatim>\<open>s.upper()\<close>, on ASCII letters.\<close>

definition upper_chr :: "char \<Rightarrow> char" where
  "upper_chr c =
     (let n = (of_char c :: nat) in if 97 \<le> n \<and> n \<le> 122 then char_of (n - 32) else c)"

definition upper :: "string \<Rightarrow> string" where
  "upper s = map upper_chr s"

text \<open>
  Truth value of an optional string (\<^verbatim>\<open>None\<close> and \<^verbatim>\<open>""\<close> are false), the
  expression \<^verbatim>\<open>x or d\<close>, and \<^verbatim>\<open>str(x)\<close> as an f-string renders it.
\<close>

definition truthy :: "string option \<Rightarrow> bool" where
  "truthy x = (case x of None \<Rightarrow> False | Some s \<Rightarrow> s \<noteq> [])"

definition py_or :: "string option \<Rightarrow> string \<Rightarrow> string" where
  "py_or x d = (case x of None \<Rightarrow> d | Some s \<Rightarrow> if s = [] then d else s)"

definition py_str :: "string option \<Rightarrow> string" where
  "py_str x = (case x of None \<Rightarrow> ''None'' | Some s \<Rightarrow> s)"

text \<open>
  Unary minus on \<^verbatim>\<open>float | None\<close>: negating \<^verbatim>\<open>None\<close> raises
  \<^verbatim>\<open>TypeError("bad operand type for unary -: 'NoneType'")\<close>.
\<close>

definition neg_None_msg :: exn where
  "neg_None_msg = ''bad operand type for unary -: '' @ [CHR 0x27] @ ''NoneType'' @ [CHR 0x27]"

definition py_neg :: "real option \<Rightarrow> exn + real option" where
  "py_neg v = (case v of None \<Rightarrow> Inl neg_None_msg | Some x \<Rightarrow> Inr (Some (- x)))"

subsection \<open>Data handed over by the decoders\<close>

text \<open>
  An exifread tag: \<open>printable\<close> is \<^verbatim>\<open>str(tag)\<close>, \<open>values'\<close> is \<^verbatim>\<open>tag.values\<close>: a
  string for ASCII fields, a list of ratios (numerator, denominator; the denominator may
  be 0) for RATIONAL fields, a list of integers otherwise. A tag object has no
  \<^verbatim>\<open>__bool__\<close> or \<^verbatim>\<open>__len__\<close>, so it is true whenever it is present.
\<close>

datatype tag_values = Ascii string | Ratios "(int \<times> int) list" | Ints "int list"

record ifd_tag =
  printable :: string
  values' :: tag_values

type_synonym tags = "string \<rightharpoonup> ifd_tag"

text \<open>A Pillow image: the attributes the module reads, and the raster.\<close>

record pil_image =
  img_format :: "string option"
  img_size :: "nat \<times> nat"
  img_mode :: string
  img_info :: "string \<rightharpoonup> string"
  img_data :: bytes

text \<open>The keyword arguments of \<^verbatim>\<open>Image.save\<close>.\<close>

record save_args =
  save_format :: string
  quality :: "nat option"
  optimize :: bool

text \<open>
  A PyPDF2 reader: \<^verbatim>\<open>len(reader.pages)\<close> and \<^verbatim>\<open>reader.metadata\<close> are computed on
  access and may raise.
\<close>

record pdf_reader =
  pages_len :: "exn + nat"
  metadata :: "exn + (string \<rightharpoonup> string) option"

text \<open>
  The core properties of a word-processing document; \<open>created_str\<close> and
  \<open>modified_str\<close> are \<^verbatim>\<open>str(core.created)\<close> and \<^verbatim>\<open>str(core.modified)\<close>.
\<close>

record core_properties =
  core_author :: string
  core_title :: string
  created_str :: string
  modified_str :: string

text \<open>
  A mutagen file object: its truth value (\<^verbatim>\<open>if audio:\<close>), its tags and
  \<^verbatim>\<open>getattr(audio.info, "length", None)\<close>.
\<close>

record audio_file =
  audio_true :: bool
  audio_tags :: "(string \<rightharpoonup> string) option"
  info_length :: "real option"

text \<open>
  The field \<open>from_buffer\<close> is \<^verbatim>\<open>magic.Magic(mime=True).from_buffer\<close>: building the
  detector or running it may raise.
\<close>

record env =
  from_buffer :: "bytes \<Rightarrow> exn + string"
  image_open :: "bytes \<Rightarrow> exn + pil_image"
  image_copy :: "pil_image \<Rightarrow> exn + pil_image"
  image_convert :: "pil_image \<Rightarrow> string \<Rightarrow> exn + pil_image"
  image_save :: "pil_image \<Rightarrow> save_args \<Rightarrow> exn + bytes"
  process_file :: "bytes \<Rightarrow> exn + tags"
  PdfReader :: "bytes \<Rightarrow> exn + pdf_reader"
  Document :: "bytes \<Rightarrow> exn + core_properties"
  MutagenFile :: "bytes \<Rightarrow> exn + audio_file option"

subsection \<open>The dictionaries the module builds\<close>

text \<open>
  Each dictionary has a fixed set of possible keys, so it is a record of options:
  \<open>None\<close> is an absent key. The value stored under \<^verbatim>\<open>"format"\<close> is itself
  \<^verbatim>\<open>str | None\<close>.
\<close>

record presence =
  gps_data :: bool
  camera_info :: bool
  timestamp :: bool

datatype gps_value = Coordinates "real option" "real option" | Text string

record image_info =
  format :: "string option option"
  size' :: "(nat \<times> nat) option"
  mode :: "string option"
  image_error :: "exn option"
  raw_exif :: "(string \<rightharpoonup> string) option"
  camera_make :: "string option"
  camera_model :: "string option"
  datetime_original :: "string option"
  software :: "string option"
  gps :: "gps_value option"
  exif_error :: "exn option"
  presence_report :: "presence option"

record pdf_info =
  num_pages :: "nat option"
  document_info :: "(string \<rightharpoonup> string) option"
  pdf_error :: "exn option"

record docx_info =
  author :: "string option"
  title :: "string option"
  created :: "string option"
  modified :: "string option"
  docx_error :: "exn option"

record audio_info =
  tags_entry :: "(string \<rightharpoonup> string) option"
  length_entry :: "real option option"
  audio_error :: "exn option"

text \<open>
  The summary's values come from \<^verbatim>\<open>dict.get\<close>, so each is \<^verbatim>\<open>None\<close> when the key
  is absent; \<open>Camera\<close> is an f-string and always a string.
\<close>

record summary_info =
  Camera :: string
  Taken_On :: "string option"
  Software :: "string option"
  GPS :: "gps_value option"

record report =
  mime :: string
  image' :: "image_info option"
  summary :: "summary_info option"
  pdf :: "pdf_info option"
  docx :: "docx_info option"
  audio :: "audio_info option"
  note' :: "string option"

definition empty_image_info :: image_info where
  "empty_image_info =
     \<lparr>format = None, size' = None, mode = None, image_error = None, raw_exif = None,
      camera_make = None, camera_model = None, datetime_original = None, software = None,
      gps = None, exif_error = None, presence_report = None\<rparr>"

definition empty_pdf_info :: pdf_info where
  "empty_pdf_info = \<lparr>num_pages = None, document_info = None, pdf_error = None\<rparr>"

definition empty_docx_info :: docx_info where
  "empty_docx_info =
     \<lparr>author = None, title = None, created = None, modified = None, docx_error = None\<rparr>"

definition empty_audio_info :: audio_info where
  "empty_audio_info = \<lparr>tags_entry = None, length_entry = None, audio_error = None\<rparr>"

subsection \<open>sniff\_mime\<close>

text \<open>The function has no handler: an exception of libmagic leaves it.\<close>

definition sniff_mime :: "env \<Rightarrow> bytes \<Rightarrow> exn + string" where
  "sniff_mime E file_bytes = from_buffer E (take 65536 file_bytes)"

subsection \<open>\_convert\_to\_degrees\<close>

text \<open>
  \<^verbatim>\<open>x.num / x.den\<close>: true division of two ints, \<^verbatim>\<open>ZeroDivisionError\<close> on a zero
  denominator.
\<close>

definition ratio_div :: "int \<times> int \<Rightarrow> real option" where
  "ratio_div x = (if snd x = 0 then None else Some (real_of_int (fst x) / real_of_int (snd x)))"

text \<open>
  The list comprehension divides every element first, then the result is unpacked into
  exactly three names. Any exception (a zero denominator, another arity, elements that
  are characters or ints and have no \<^verbatim>\<open>num\<close>) makes the function return \<^verbatim>\<open>None\<close>.
\<close>

definition convert_to_degrees :: "tag_values \<Rightarrow> real option" where
  "convert_to_degrees v =
     (case v of
        Ratios rs \<Rightarrow>
          (case those (map ratio_div rs) of
             Some [d, m, s] \<Rightarrow> Some (d + (m / 60) + (s / 3600))
           | _ \<Rightarrow> None)
      | _ \<Rightarrow> None)"

subsection \<open>extract\_image\_metadata\<close>

text \<open>
  The GPS statements of the second \<^verbatim>\<open>try\<close> block. The result is \<open>Inl\<close> when a
  negation raises; nothing has been stored under \<^verbatim>\<open>"gps"\<close> then.
\<close>

definition gps_block :: "tags \<Rightarrow> image_info \<times> presence \<Rightarrow> exn + image_info \<times> presence" where
  "gps_block tgs st =
     (case (tgs ''GPS GPSLatitude'', tgs ''GPS GPSLatitudeRef'',
            tgs ''GPS GPSLongitude'', tgs ''GPS GPSLongitudeRef'') of
        (Some gps_lat, Some gps_lat_ref, Some gps_lon, Some gps_lon_ref) \<Rightarrow>
          (let lat = convert_to_degrees (values' gps_lat);
               lon = convert_to_degrees (values' gps_lon)
           in case (if values' gps_lat_ref \<noteq> Ascii ''N'' then py_neg lat else Inr lat) of
                Inl e \<Rightarrow> Inl e
              | Inr lat' \<Rightarrow>
                  (case (if values' gps_lon_ref \<noteq> Ascii ''E'' then py_neg lon else Inr lon) of
                     Inl e \<Rightarrow> Inl e
                   | Inr lon' \<Rightarrow>
                       Inr ((fst st)\<lparr>gps := Some (Coordinates lat' lon')\<rparr>,
                            (snd st)\<lparr>gps_data := True\<rparr>)))
      | _ \<Rightarrow> Inr ((fst st)\<lparr>gps := Some (Text ''No GPS data found'')\<rparr>, snd st))"

text \<open>The statements of the second \<^verbatim>\<open>try\<close> block before the GPS part.\<close>

definition camera_block :: "tags \<Rightarrow> image_info \<times> presence \<Rightarrow> image_info \<times> presence" where
  "camera_block tgs st =
     (let exif = (\<lambda>k. map_option printable (tgs k));
          make = exif ''Image Make'';
          model = exif ''Image Model'';
          date_taken = exif ''EXIF DateTimeOriginal''
      in ((fst st)\<lparr>raw_exif := Some exif,
                    camera_make := Some (py_or make ''Unknown''),
                    camera_model := Some (py_or model ''Unknown''),
                    datetime_original := Some (py_or date_taken ''Unknown''),
                    software := Some (case exif ''Image Software'' of
                                        None \<Rightarrow> ''Unknown'' | Some v \<Rightarrow> v)\<rparr>,
          (snd st)\<lparr>camera_info := (if truthy make \<or> truthy model then True
                                    else camera_info (snd st)),
                    timestamp := (if truthy date_taken then True else timestamp (snd st))\<rparr>))"

text \<open>
  The second \<^verbatim>\<open>try\<close> block with its handler: an exception keeps what was stored
  before it and adds \<^verbatim>\<open>"exif_error"\<close>.
\<close>

definition exif_block :: "env \<Rightarrow> bytes \<Rightarrow> image_info \<times> presence \<Rightarrow> image_info \<times> presence" where
  "exif_block E file_bytes st =
     (case process_file E file_bytes of
        Inl e \<Rightarrow> ((fst st)\<lparr>exif_error := Some e\<rparr>, snd st)
      | Inr tgs \<Rightarrow>
          (let st1 = camera_block tgs st
           in case gps_block tgs st1 of
                Inl e \<Rightarrow> ((fst st1)\<lparr>exif_error := Some e\<rparr>, snd st1)
              | Inr st2 \<Rightarrow> st2))"

text \<open>The first \<^verbatim>\<open>try\<close> block with its handler.\<close>

definition basic_block :: "env \<Rightarrow> bytes \<Rightarrow> image_info \<Rightarrow> image_info" where
  "basic_block E file_bytes info =
     (case image_open E file_bytes of
        Inr img \<Rightarrow> info\<lparr>format := Some (img_format img), size' := Some (img_size img),
                        mode := Some (img_mode img)\<rparr>
      | Inl e \<Rightarrow> info\<lparr>image_error := Some e\<rparr>)"

definition extract_image_metadata :: "env \<Rightarrow> bytes \<Rightarrow> image_info" where
  "extract_image_metadata E file_bytes =
     (let info = basic_block E file_bytes empty_image_info;
          presence0 = \<lparr>gps_data = False, camera_info = False, timestamp = False\<rparr>;
          st = exif_block E file_bytes (info, presence0)
      in (fst st)\<lparr>presence_report := Some (snd st)\<rparr>)"

subsection \<open>The other extractors\<close>

definition extract_pdf_metadata :: "env \<Rightarrow> bytes \<Rightarrow> pdf_info" where
  "extract_pdf_metadata E file_bytes =
     (case PdfReader E file_bytes of
        Inl e \<Rightarrow> empty_pdf_info\<lparr>pdf_error := Some e\<rparr>
      | Inr reader \<Rightarrow>
          (case pages_len reader of
             Inl e \<Rightarrow> empty_pdf_info\<lparr>pdf_error := Some e\<rparr>
           | Inr n \<Rightarrow>
               (case metadata reader of
                  Inl e \<Rightarrow> empty_pdf_info\<lparr>num_pages := Some n, pdf_error := Some e\<rparr>
                | Inr md \<Rightarrow>
                    empty_pdf_info\<lparr>num_pages := Some n,
                      document_info := Some (case md of None \<Rightarrow> Map.empty | Some d \<Rightarrow> d)\<rparr>)))"

definition extract_docx_metadata :: "env \<Rightarrow> bytes \<Rightarrow> docx_info" where
  "extract_docx_metadata E file_bytes =
     (case Document E file_bytes of
        Inl e \<Rightarrow> empty_docx_info\<lparr>docx_error := Some e\<rparr>
      | Inr core \<Rightarrow>
          empty_docx_info\<lparr>author := Some (core_author core), title := Some (core_title core),
            created := Some (created_str core), modified := Some (modified_str core)\<rparr>)"

definition extract_audio_metadata :: "env \<Rightarrow> bytes \<Rightarrow> audio_info" where
  "extract_audio_metadata E file_bytes =
     (case MutagenFile E file_bytes of
        Inl e \<Rightarrow> empty_audio_info\<lparr>audio_error := Some e\<rparr>
      | Inr None \<Rightarrow> empty_audio_info
      | Inr (Some a) \<Rightarrow>
          (if audio_true a
           then empty_audio_info\<lparr>tags_entry :=
                    Some (case audio_tags a of None \<Rightarrow> Map.empty | Some t \<Rightarrow> t),
                  length_entry := Some (info_length a)\<rparr>
           else empty_audio_info))"

subsection \<open>extract\_metadata\<close>

text \<open>
  The call of \<^verbatim>\<open>sniff_mime\<close> on the first line is outside every \<^verbatim>\<open>try\<close>: its
  exception leaves \<^verbatim>\<open>extract_metadata\<close>. The extractors called afterwards catch their
  own.
\<close>

definition extract_metadata :: "env \<Rightarrow> bytes \<Rightarrow> exn + report" where
  "extract_metadata E file_bytes =
     (case sniff_mime E file_bytes of
        Inl e \<Rightarrow> Inl e
      | Inr sniffed \<Rightarrow>
          Inr (let mime = sniffed;
                   result = \<lparr>mime = mime, image' = None, summary = None, pdf = None,
                             docx = None, audio = None, note' = None\<rparr>
               in if startswith mime ''image/'' then
                    (let img_meta = extract_image_metadata E file_bytes
                     in result\<lparr>image' := Some img_meta,
                          summary := Some \<lparr>Camera = py_str (camera_make img_meta) @ '' '' @
                                                      py_str (camera_model img_meta),
                                            Taken_On = datetime_original img_meta,
                                            Software = software img_meta,
                                            GPS = gps img_meta\<rparr>\<rparr>)
                  else if mime = ''application/pdf'' then
                    result\<lparr>pdf := Some (extract_pdf_metadata E file_bytes)\<rparr>
                  else if str_in ''wordprocessingml'' mime then
                    result\<lparr>docx := Some (extract_docx_metadata E file_bytes)\<rparr>
                  else if startswith mime ''audio/'' then
                    result\<lparr>audio := Some (extract_audio_metadata E file_bytes)\<rparr>
                  else result\<lparr>note' := Some ''File type not supported''\<rparr>))"

subsection \<open>strip\_image\_metadata\<close>

text \<open>\<^verbatim>\<open>cleaned.mode in ("RGBA", "LA", "P")\<close>.\<close>

definition needs_rgb :: "string \<Rightarrow> bool" where
  "needs_rgb m = (m = ''RGBA'' \<or> m = ''LA'' \<or> m = ''P'')"

text \<open>
  The two branches that write a JPEG are the same statements; \<open>save_jpeg\<close> is their
  common text.
\<close>

definition save_jpeg :: "env \<Rightarrow> pil_image \<Rightarrow> exn + bytes" where
  "save_jpeg E cleaned =
     (case (if needs_rgb (img_mode cleaned) then image_convert E cleaned ''RGB''
            else Inr cleaned) of
        Inl e \<Rightarrow> Inl e
      | Inr c \<Rightarrow> image_save E c \<lparr>save_format = ''JPEG'', quality = Some 95, optimize = True\<rparr>)"

text \<open>The \<^verbatim>\<open>if fmt == "JPEG" ... elif fmt == "PNG" ... else\<close> statement.\<close>

definition reencode :: "env \<Rightarrow> string \<Rightarrow> pil_image \<Rightarrow> exn + bytes" where
  "reencode E fmt cleaned =
     (if fmt = ''JPEG'' then save_jpeg E cleaned
      else if fmt = ''PNG'' then
        image_save E cleaned \<lparr>save_format = ''PNG'', quality = None, optimize = True\<rparr>
      else save_jpeg E cleaned)"

text \<open>The body of the \<^verbatim>\<open>try\<close> block.\<close>

definition strip_body :: "env \<Rightarrow> bytes \<Rightarrow> exn + bytes" where
  "strip_body E file_bytes =
     (case image_open E file_bytes of
        Inl e \<Rightarrow> Inl e
      | Inr img \<Rightarrow>
          (let fmt = upper (py_or (img_format img) ''JPEG'')
           in case image_copy E img of
                Inl e \<Rightarrow> Inl e
              | Inr copied \<Rightarrow> reencode E fmt (copied\<lparr>img_info := Map.empty\<rparr>)))"

text \<open>The handler: \<^verbatim>\<open>raise RuntimeError(f"Failed to strip metadata: {e}")\<close>.\<close>

definition reraise :: "exn + bytes \<Rightarrow> error + bytes" where
  "reraise r =
     (case r of
        Inl e \<Rightarrow> Inl (RuntimeError (''Failed to strip metadata: '' @ e))
      | Inr out \<Rightarrow> Inr out)"

definition strip_image_metadata :: "env \<Rightarrow> bytes \<Rightarrow> error + bytes" where
  "strip_image_metadata E file_bytes = reraise (strip_body E file_bytes)"

subsection \<open>Auxiliary notions and example inputs\<close>

text \<open>Which of the five sections of a report are present, in the order of the dispatch.\<close>

definition populated :: "report \<Rightarrow> bool list" where
  "populated r =
     [image' r \<noteq> None, pdf r \<noteq> None, docx r \<noteq> None, audio r \<noteq> None, note' r \<noteq> None]"

text \<open>
  A decoded JPEG header, a tag dictionary holding the four GPS tags, and decoders that
  answer every buffer alike: the sniffer with \<open>m\<close>, Pillow with \<open>im\<close>, exifread with
  \<open>tg\<close>. The example encoder writes the format and the pixel mode it was given.
\<close>

definition example_image :: pil_image where
  "example_image =
     \<lparr>img_format = Some ''JPEG'', img_size = (640, 480), img_mode = ''RGB'',
      img_info = [''exif'' \<mapsto> ''Exif''], img_data = []\<rparr>"

definition gps_tags :: "tag_values \<Rightarrow> string \<Rightarrow> tag_values \<Rightarrow> string \<Rightarrow> tags" where
  "gps_tags lat lat_ref lon lon_ref =
     [''GPS GPSLatitude'' \<mapsto> \<lparr>printable = ''[lat]'', values' = lat\<rparr>,
      ''GPS GPSLatitudeRef'' \<mapsto> \<lparr>printable = lat_ref, values' = Ascii lat_ref\<rparr>,
      ''GPS GPSLongitude'' \<mapsto> \<lparr>printable = ''[lon]'', values' = lon\<rparr>,
      ''GPS GPSLongitudeRef'' \<mapsto> \<lparr>printable = lon_ref, values' = Ascii lon_ref\<rparr>]"

definition example_env :: "string \<Rightarrow> exn + pil_image \<Rightarrow> exn + tags \<Rightarrow> env" where
  "example_env m im tg =
     \<lparr>from_buffer = (\<lambda>b. Inr m), image_open = (\<lambda>b. im),
      image_copy = (\<lambda>i. Inr (i\<lparr>img_format := None\<rparr>)),
      image_convert = (\<lambda>i md. Inr (i\<lparr>img_mode := md\<rparr>)),
      image_save = (\<lambda>i a. Inr (map of_char (save_format a @ '' '' @ img_mode i))),
      process_file = (\<lambda>b. tg),
      PdfReader = (\<lambda>b. Inl ''not a PDF''),
      Document = (\<lambda>b. Inl ''not a document''),
      MutagenFile = (\<lambda>b. Inr None)\<rparr>"

text \<open>Tag dictionaries with a malformed coordinate, and a dictionary with a camera make only.\<close>

definition zero_den_south_tags :: tags where
  "zero_den_south_tags =
     gps_tags (Ratios [(40, 1), (26, 1), (46, 0)]) ''S'' (Ratios [(79, 1), (58, 1), (36, 1)]) ''W''"

definition zero_den_south_env :: env where
  "zero_den_south_env = example_env ''image/jpeg'' (Inr example_image) (Inr zero_den_south_tags)"

definition short_west_tags :: tags where
  "short_west_tags =
     gps_tags (Ratios [(40, 1), (26, 1), (46, 1)]) ''N'' (Ratios [(79, 1), (58, 1)]) ''W''"

definition short_west_env :: env where
  "short_west_env = example_env ''image/jpeg'' (Inr example_image) (Inr short_west_tags)"

definition zero_den_north_tags :: tags where
  "zero_den_north_tags =
     gps_tags (Ratios [(40, 1), (26, 1), (46, 0)]) ''N'' (Ratios [(79, 1), (58, 1), (36, 1)]) ''W''"

definition short_east_tags :: tags where
  "short_east_tags =
     gps_tags (Ratios [(40, 1), (26, 1), (46, 1)]) ''S'' (Ratios [(79, 1), (58, 1)]) ''E''"

definition camera_tags :: tags where
  "camera_tags = [''Image Make'' \<mapsto> \<lparr>printable = ''Canon'', values' = Ascii ''Canon''\<rparr>]"

text \<open>An image whose EXIF segment cannot be parsed, and a buffer Pillow cannot open.\<close>

definition exif_fail_env :: env where
  "exif_fail_env = example_env ''image/jpeg'' (Inr example_image) (Inl ''corrupt EXIF'')"

definition image_fail_env :: env where
  "image_fail_env =
     example_env ''image/jpeg'' (Inl ''cannot identify image file'') (Inr camera_tags)"

text \<open>The decoders of a JPEG with a camera make, on a host where libmagic cannot start.\<close>

definition sniff_fail_env :: env where
  "sniff_fail_env =
     (example_env ''image/jpeg'' (Inr example_image) (Inr camera_tags))
       \<lparr>from_buffer := (\<lambda>b. Inl ''could not find any valid magic files!'')\<rparr>"

text \<open>A PNG with an alpha channel and a palette GIF, both carrying a comment.\<close>

definition png_rgba_image :: pil_image where
  "png_rgba_image =
     \<lparr>img_format = Some ''PNG'', img_size = (16, 16), img_mode = ''RGBA'',
      img_info = [''Comment'' \<mapsto> ''shot at home''], img_data = [1, 2, 3]\<rparr>"

definition gif_palette_image :: pil_image where
  "gif_palette_image =
     \<lparr>img_format = Some ''GIF'', img_size = (16, 16), img_mode = ''P'',
      img_info = [''comment'' \<mapsto> ''shot at home''], img_data = [1, 2, 3]\<rparr>"

section \<open>Properties\<close>

subsection \<open>What the blocks of extract\_image\_metadata change\<close>

lemma gps_block_keeps:
  "gps_block tgs st = Inr st' \<Longrightarrow>
     format (fst st') = format (fst st) \<and> size' (fst st') = size' (fst st) \<and>
     mode (fst st') = mode (fst st) \<and> image_error (fst st') = image_error (fst st) \<and>
     exif_error (fst st') = exif_error (fst st)"
  by (auto simp: gps_block_def Let_def split: option.splits sum.splits if_splits)

lemma camera_block_keeps:
  "format (fst (camera_block tgs st)) = format (fst st) \<and>
   size' (fst (camera_block tgs st)) = size' (fst st) \<and>
   mode (fst (camera_block tgs st)) = mode (fst st) \<and>
   image_error (fst (camera_block tgs st)) = image_error (fst st) \<and>
   exif_error (fst (camera_block tgs st)) = exif_error (fst st)"
  by (simp add: camera_block_def Let_def)

lemma exif_block_keeps:
  "format (fst (exif_block E fb st)) = format (fst st) \<and>
   size' (fst (exif_block E fb st)) = size' (fst st) \<and>
   mode (fst (exif_block E fb st)) = mode (fst st) \<and>
   image_error (fst (exif_block E fb st)) = image_error (fst st)"
  using gps_block_keeps [of _ "camera_block _ st"] camera_block_keeps [of _ st]
  by (auto simp: exif_block_def Let_def split: sum.splits)

lemma gps_block_four:
  assumes "tgs ''GPS GPSLatitude'' = Some gps_lat" "tgs ''GPS GPSLatitudeRef'' = Some gps_lat_ref"
    "tgs ''GPS GPSLongitude'' = Some gps_lon" "tgs ''GPS GPSLongitudeRef'' = Some gps_lon_ref"
  shows "gps_block tgs st =
     (case (if values' gps_lat_ref \<noteq> Ascii ''N'' then py_neg (convert_to_degrees (values' gps_lat))
            else Inr (convert_to_degrees (values' gps_lat))) of
        Inl e \<Rightarrow> Inl e
      | Inr lat' \<Rightarrow>
          (case (if values' gps_lon_ref \<noteq> Ascii ''E'' then py_neg (convert_to_degrees (values' gps_lon))
                 else Inr (convert_to_degrees (values' gps_lon))) of
             Inl e \<Rightarrow> Inl e
           | Inr lon' \<Rightarrow> Inr ((fst st)\<lparr>gps := Some (Coordinates lat' lon')\<rparr>,
                               (snd st)\<lparr>gps_data := True\<rparr>)))"
  using assms by (simp add: gps_block_def Let_def)

lemma gps_block_missing:
  assumes "tgs ''GPS GPSLatitude'' = None \<or> tgs ''GPS GPSLatitudeRef'' = None \<or>
           tgs ''GPS GPSLongitude'' = None \<or> tgs ''GPS GPSLongitudeRef'' = None"
  shows "gps_block tgs st = Inr ((fst st)\<lparr>gps := Some (Text ''No GPS data found'')\<rparr>, snd st)"
  using assms by (auto simp: gps_block_def split: option.splits)

lemma camera_block_gps:
  "gps (fst (camera_block tgs st)) = gps (fst st) \<and>
   gps_data (snd (camera_block tgs st)) = gps_data (snd st)"
  by (simp add: camera_block_def Let_def)

lemma extract_image_exif_ok:
  assumes "process_file E fb = Inr tgs"
    and "gps_block tgs (camera_block tgs (basic_block E fb empty_image_info,
             \<lparr>gps_data = False, camera_info = False, timestamp = False\<rparr>)) = Inr st"
  shows "extract_image_metadata E fb = (fst st)\<lparr>presence_report := Some (snd st)\<rparr>"
  using assms by (simp add: extract_image_metadata_def exif_block_def Let_def)

lemma extract_image_exif_raise:
  assumes "process_file E fb = Inr tgs"
    and "gps_block tgs (camera_block tgs (basic_block E fb empty_image_info,
             \<lparr>gps_data = False, camera_info = False, timestamp = False\<rparr>)) = Inl e"
  shows "extract_image_metadata E fb =
     (fst (camera_block tgs (basic_block E fb empty_image_info,
             \<lparr>gps_data = False, camera_info = False, timestamp = False\<rparr>)))
       \<lparr>exif_error := Some e,
        presence_report := Some (snd (camera_block tgs (basic_block E fb empty_image_info,
             \<lparr>gps_data = False, camera_info = False, timestamp = False\<rparr>)))\<rparr>"
  using assms by (simp add: extract_image_metadata_def exif_block_def Let_def)

lemma gps_block_keeps_camera:
  "gps_block tgs st = Inr st' \<Longrightarrow>
     raw_exif (fst st') = raw_exif (fst st) \<and> camera_make (fst st') = camera_make (fst st) \<and>
     camera_model (fst st') = camera_model (fst st) \<and>
     datetime_original (fst st') = datetime_original (fst st) \<and>
     software (fst st') = software (fst st)"
  by (auto simp: gps_block_def Let_def split: option.splits sum.splits if_splits)

lemma gps_block_result:
  "gps_block tgs st = Inr st' \<Longrightarrow>
     gps (fst st') = Some (Text ''No GPS data found'') \<or>
     (\<exists>lat lon. gps (fst st') = Some (Coordinates lat lon))"
  by (auto simp: gps_block_def Let_def split: option.splits sum.splits if_splits)

lemma extract_image_camera:
  assumes "process_file E fb = Inr tgs"
  shows "raw_exif (extract_image_metadata E fb) = Some (\<lambda>k. map_option printable (tgs k))"
    and "camera_make (extract_image_metadata E fb) =
           Some (py_or (map_option printable (tgs ''Image Make'')) ''Unknown'')"
    and "camera_model (extract_image_metadata E fb) =
           Some (py_or (map_option printable (tgs ''Image Model'')) ''Unknown'')"
    and "datetime_original (extract_image_metadata E fb) =
           Some (py_or (map_option printable (tgs ''EXIF DateTimeOriginal'')) ''Unknown'')"
    and "software (extract_image_metadata E fb) =
           Some (case tgs ''Image Software'' of None \<Rightarrow> ''Unknown'' | Some t \<Rightarrow> printable t)"
  using assms
    gps_block_keeps_camera [of tgs "camera_block tgs (basic_block E fb empty_image_info,
             \<lparr>gps_data = False, camera_info = False, timestamp = False\<rparr>)"]
  by (auto simp: extract_image_metadata_def exif_block_def camera_block_def Let_def
      split: sum.splits option.splits)

lemma extract_image_basic:
  "format (extract_image_metadata E fb) = format (basic_block E fb empty_image_info) \<and>
   size' (extract_image_metadata E fb) = size' (basic_block E fb empty_image_info) \<and>
   mode (extract_image_metadata E fb) = mode (basic_block E fb empty_image_info) \<and>
   image_error (extract_image_metadata E fb) = image_error (basic_block E fb empty_image_info)"
  using exif_block_keeps [of E fb "(basic_block E fb empty_image_info,
             \<lparr>gps_data = False, camera_info = False, timestamp = False\<rparr>)"]
  by (simp add: extract_image_metadata_def Let_def)

lemma extract_image_gps_shape:
  assumes "process_file E fb = Inr tgs" and "exif_error (extract_image_metadata E fb) = None"
  shows "gps (extract_image_metadata E fb) = Some (Text ''No GPS data found'') \<or>
         (\<exists>lat lon. gps (extract_image_metadata E fb) = Some (Coordinates lat lon))"
proof (cases "gps_block tgs (camera_block tgs (basic_block E fb empty_image_info,
             \<lparr>gps_data = False, camera_info = False, timestamp = False\<rparr>))")
  case (Inl e)
  from extract_image_exif_raise [OF assms(1) Inl] assms(2) show ?thesis by simp
next
  case (Inr st)
  from extract_image_exif_ok [OF assms(1) Inr] gps_block_result [OF Inr] show ?thesis by simp
qed

lemma basic_example [simp]:
  "basic_block (example_env m (Inr example_image) tg) fb empty_image_info =
     empty_image_info\<lparr>format := Some (Some ''JPEG''), size' := Some (640, 480), mode := Some ''RGB''\<rparr>"
  by (simp add: basic_block_def example_env_def example_image_def)

lemma null_coordinate_examples:
  "gps (extract_image_metadata
          (example_env ''image/jpeg'' (Inr example_image) (Inr zero_den_north_tags)) []) =
     Some (Coordinates None (Some (- (23993 / 300))))"
  "presence_report (extract_image_metadata
          (example_env ''image/jpeg'' (Inr example_image) (Inr zero_den_north_tags)) []) =
     Some \<lparr>gps_data = True, camera_info = False, timestamp = False\<rparr>"
  "gps (extract_image_metadata
          (example_env ''image/jpeg'' (Inr example_image) (Inr short_east_tags)) []) =
     Some (Coordinates (Some (- (72803 / 1800))) None)"
  "presence_report (extract_image_metadata
          (example_env ''image/jpeg'' (Inr example_image) (Inr short_east_tags)) []) =
     Some \<lparr>gps_data = True, camera_info = False, timestamp = False\<rparr>"
  by (simp_all add: zero_den_north_tags_def short_east_tags_def extract_image_metadata_def
      exif_block_def gps_block_def camera_block_def basic_block_def example_env_def
      example_image_def empty_image_info_def gps_tags_def convert_to_degrees_def ratio_div_def
      py_neg_def py_or_def truthy_def Let_def)

lemma reencode_policy:
  "reencode E fmt cleaned =
     (if fmt = ''PNG'' then
        image_save E cleaned \<lparr>save_format = ''PNG'', quality = None, optimize = True\<rparr>
      else if img_mode cleaned = ''RGBA'' \<or> img_mode cleaned = ''LA'' \<or> img_mode cleaned = ''P''
      then (case image_convert E cleaned ''RGB'' of
              Inl e \<Rightarrow> Inl e
            | Inr c \<Rightarrow> image_save E c \<lparr>save_format = ''JPEG'', quality = Some 95, optimize = True\<rparr>)
      else image_save E cleaned \<lparr>save_format = ''JPEG'', quality = Some 95, optimize = True\<rparr>)"
  by (simp add: reencode_def save_jpeg_def needs_rgb_def)

lemma upper_examples: "upper ''PNG'' = ''PNG''" "upper ''GIF'' = ''GIF''" "upper ''JPEG'' = ''JPEG''"
  by code_simp+

subsection \<open>The dispatcher\<close>

text \<open>
  Claim C1 as stated fails: the sniffer is called outside every handler, so on a host
  where libmagic raises, \<open>extract_metadata\<close> raises too and returns no report.
\<close>

theorem extract_metadata_counterexample:
  "sniff_mime sniff_fail_env [] = Inl ''could not find any valid magic files!'' \<and>
   extract_metadata sniff_fail_env [] = Inl ''could not find any valid magic files!''"
  by (simp add: extract_metadata_def sniff_mime_def sniff_fail_env_def example_env_def)

text \<open>
  Claim C1, amended. An exception of the sniffer leaves \<open>extract_metadata\<close> unchanged.
  For every buffer on which the sniffer returns a mime, \<open>extract_metadata\<close> does not
  raise, whatever the other decoders do, and returns a report that carries the sniffed
  mime and exactly one of the five sections \<open>image\<close>, \<open>pdf\<close>, \<open>docx\<close>, \<open>audio\<close>,
  \<open>note\<close>: the image section for a mime that starts with \<^verbatim>\<open>image/\<close>, the PDF
  section for exactly \<^verbatim>\<open>application/pdf\<close>, the document section for a mime
  containing \<^verbatim>\<open>wordprocessingml\<close>, the audio section for a mime that starts with
  \<^verbatim>\<open>audio/\<close>, and otherwise the note \<^verbatim>\<open>File type not supported\<close>.
\<close>

theorem extract_metadata_one_section:
  "(\<forall>e. sniff_mime E fb = Inl e \<longrightarrow> extract_metadata E fb = Inl e) \<and>
   (\<forall>m. sniff_mime E fb = Inr m \<longrightarrow>
      (\<exists>r. extract_metadata E fb = Inr r \<and> mime r = m \<and>
         length (filter (\<lambda>b. b) (populated r)) = 1 \<and>
         (if startswith m ''image/''
            then image' r = Some (extract_image_metadata E fb)
          else if m = ''application/pdf''
            then pdf r = Some (extract_pdf_metadata E fb)
          else if str_in ''wordprocessingml'' m
            then docx r = Some (extract_docx_metadata E fb)
          else if startswith m ''audio/''
            then audio r = Some (extract_audio_metadata E fb)
          else note' r = Some ''File type not supported'')))"
  by (simp add: extract_metadata_def populated_def Let_def)

theorem extract_metadata_one_section_witness:
  "sniff_mime exif_fail_env [] = Inr ''image/jpeg'' \<and>
   (\<exists>r. extract_metadata exif_fail_env [] = Inr r \<and> mime r = ''image/jpeg'' \<and>
      length (filter (\<lambda>b. b) (populated r)) = 1 \<and>
      image' r = Some (extract_image_metadata exif_fail_env [])) \<and>
   sniff_mime sniff_fail_env [] = Inl ''could not find any valid magic files!'' \<and>
   extract_metadata sniff_fail_env [] = Inl ''could not find any valid magic files!''"
  using extract_metadata_one_section [of exif_fail_env "[]"]
    extract_metadata_one_section [of sniff_fail_env "[]"]
  by (simp add: sniff_mime_def exif_fail_env_def sniff_fail_env_def example_env_def
      startswith_def)

subsection \<open>GPS presence\<close>

text \<open>
  The two directions of the presence flag that hold on every input: a missing raw GPS
  tag gives the marker and leaves \<open>gps_data\<close> false, and \<open>gps_data\<close> is true only
  when all four tags are present.
\<close>

lemma gps_marker_when_missing:
  assumes "process_file E fb = Inr tgs"
    and "tgs ''GPS GPSLatitude'' = None \<or> tgs ''GPS GPSLatitudeRef'' = None \<or>
         tgs ''GPS GPSLongitude'' = None \<or> tgs ''GPS GPSLongitudeRef'' = None"
  shows "gps (extract_image_metadata E fb) = Some (Text ''No GPS data found'')"
    and "\<exists>p. presence_report (extract_image_metadata E fb) = Some p \<and> \<not> gps_data p"
proof -
  let ?st = "camera_block tgs (basic_block E fb empty_image_info,
                \<lparr>gps_data = False, camera_info = False, timestamp = False\<rparr>)"
  have g: "gps_block tgs ?st = Inr ((fst ?st)\<lparr>gps := Some (Text ''No GPS data found'')\<rparr>, snd ?st)"
    using assms(2) by (rule gps_block_missing)
  have i: "extract_image_metadata E fb =
      (fst ?st)\<lparr>gps := Some (Text ''No GPS data found''), presence_report := Some (snd ?st)\<rparr>"
    using extract_image_exif_ok [OF assms(1) g] by simp
  show "gps (extract_image_metadata E fb) = Some (Text ''No GPS data found'')"
    by (simp add: i)
  have "\<not> gps_data (snd ?st)"
    by (simp add: camera_block_gps)
  then show "\<exists>p. presence_report (extract_image_metadata E fb) = Some p \<and> \<not> gps_data p"
    by (simp add: i)
qed

lemma gps_data_only_if_all_four:
  assumes "process_file E fb = Inr tgs"
    and "presence_report (extract_image_metadata E fb) = Some p" and "gps_data p"
  shows "tgs ''GPS GPSLatitude'' \<noteq> None \<and> tgs ''GPS GPSLatitudeRef'' \<noteq> None \<and>
         tgs ''GPS GPSLongitude'' \<noteq> None \<and> tgs ''GPS GPSLongitudeRef'' \<noteq> None"
proof (rule ccontr)
  assume "\<not> (tgs ''GPS GPSLatitude'' \<noteq> None \<and> tgs ''GPS GPSLatitudeRef'' \<noteq> None \<and>
         tgs ''GPS GPSLongitude'' \<noteq> None \<and> tgs ''GPS GPSLongitudeRef'' \<noteq> None)"
  then have "tgs ''GPS GPSLatitude'' = None \<or> tgs ''GPS GPSLatitudeRef'' = None \<or>
         tgs ''GPS GPSLongitude'' = None \<or> tgs ''GPS GPSLongitudeRef'' = None"
    by blast
  from gps_marker_when_missing(2) [OF assms(1) this] assms(2,3) show False
    by simp
qed

text \<open>
  Claim C2. The presence flag \<open>gps_data\<close> should be true exactly when all four raw GPS
  tags are present. On the tags \<open>zero_den_south_tags\<close> all four are present, the
  latitude has a zero denominator and the hemisphere is \<^verbatim>\<open>S\<close>: the conversion
  returns \<^verbatim>\<open>None\<close>, negating it raises, the handler records \<open>exif_error\<close>, and
  the report has no \<open>gps\<close> entry and \<open>gps_data\<close> false.
\<close>

theorem gps_presence_lost_at_zero_denominator:
  "process_file zero_den_south_env [] = Inr zero_den_south_tags \<and>
   zero_den_south_tags ''GPS GPSLatitude'' \<noteq> None \<and>
   zero_den_south_tags ''GPS GPSLatitudeRef'' \<noteq> None \<and>
   zero_den_south_tags ''GPS GPSLongitude'' \<noteq> None \<and>
   zero_den_south_tags ''GPS GPSLongitudeRef'' \<noteq> None \<and>
   convert_to_degrees (Ratios [(40, 1), (26, 1), (46, 0)]) = None \<and>
   gps (extract_image_metadata zero_den_south_env []) = None \<and>
   presence_report (extract_image_metadata zero_den_south_env []) =
     Some \<lparr>gps_data = False, camera_info = False, timestamp = False\<rparr> \<and>
   exif_error (extract_image_metadata zero_den_south_env []) = Some neg_None_msg"
  by (simp add: zero_den_south_env_def zero_den_south_tags_def extract_image_metadata_def exif_block_def gps_block_def
      camera_block_def basic_block_def example_env_def example_image_def empty_image_info_def
      gps_tags_def convert_to_degrees_def ratio_div_def py_neg_def py_or_def truthy_def Let_def)

text \<open>
  Claim C3. A malformed triple converts to \<^verbatim>\<open>None\<close>, which the caller should treat
  as an unavailable coordinate. On the tags \<open>short_west_tags\<close> the longitude has two
  ratios instead of three and the hemisphere is \<^verbatim>\<open>W\<close>: the conversion returns
  \<^verbatim>\<open>None\<close>, the caller negates it, the \<^verbatim>\<open>TypeError\<close> leaves the GPS statements
  and is recorded as \<open>exif_error\<close>.
\<close>

theorem negation_of_null_longitude_raises:
  "process_file short_west_env [] = Inr short_west_tags \<and>
   convert_to_degrees (Ratios [(79, 1), (58, 1)]) = None \<and>
   py_neg (convert_to_degrees (Ratios [(79, 1), (58, 1)])) = Inl neg_None_msg \<and>
   gps_block short_west_tags (empty_image_info,
       \<lparr>gps_data = False, camera_info = False, timestamp = False\<rparr>) = Inl neg_None_msg \<and>
   exif_error (extract_image_metadata short_west_env []) = Some neg_None_msg \<and>
   gps (extract_image_metadata short_west_env []) = None"
  by (simp add: short_west_env_def short_west_tags_def extract_image_metadata_def exif_block_def
      gps_block_def camera_block_def basic_block_def example_env_def example_image_def
      empty_image_info_def gps_tags_def convert_to_degrees_def ratio_div_def py_neg_def
      py_or_def truthy_def Let_def)

subsection \<open>Coordinate conversion\<close>

text \<open>
  Claim C4. A triple of ratios with nonzero denominators converts to
  \<open>d + m / 60 + s / 3600\<close>, each ratio divided as a fraction and not as an integer;
  the triple (40/1, 26/1, 46/1) converts to 40.44611 up to the fifth decimal. Floats are
  exact reals here; numerators and denominators are the integers exifread hands over
  (32-bit fields of the file), for which the division cannot overflow.
\<close>

theorem convert_to_degrees_formula:
  "(dd \<noteq> 0 \<and> md \<noteq> 0 \<and> sd \<noteq> 0 \<longrightarrow>
      convert_to_degrees (Ratios [(dn, dd), (mn, md), (sn, sd)]) =
        Some (real_of_int dn / real_of_int dd + (real_of_int mn / real_of_int md) / 60 +
              (real_of_int sn / real_of_int sd) / 3600)) \<and>
   (case convert_to_degrees (Ratios [(40, 1), (26, 1), (46, 1)]) of
      None \<Rightarrow> False
    | Some x \<Rightarrow> \<bar>x - 40.44611\<bar> < 1 / 100000)"
  by (simp add: convert_to_degrees_def ratio_div_def)

theorem convert_to_degrees_formula_witness:
  "(1::int) \<noteq> 0 \<and>
   convert_to_degrees (Ratios [(40, 1), (26, 1), (46, 1)]) = Some (40 + 26 / 60 + 46 / 3600)"
  using convert_to_degrees_formula [of 1 1 1 40 26 46] by simp

text \<open>
  Claim C5. With all four raw GPS tags present and both coordinates convertible, the
  reported latitude is the converted value when the latitude reference is exactly
  \<^verbatim>\<open>N\<close> and its negation otherwise; the reported longitude is the converted value
  when the longitude reference is exactly \<^verbatim>\<open>E\<close> and its negation otherwise.
\<close>

theorem gps_sign_convention:
  assumes "process_file E fb = Inr tgs"
    and "tgs ''GPS GPSLatitude'' = Some gps_lat"
    and "tgs ''GPS GPSLatitudeRef'' = Some gps_lat_ref"
    and "tgs ''GPS GPSLongitude'' = Some gps_lon"
    and "tgs ''GPS GPSLongitudeRef'' = Some gps_lon_ref"
    and "convert_to_degrees (values' gps_lat) = Some x"
    and "convert_to_degrees (values' gps_lon) = Some y"
  shows "gps (extract_image_metadata E fb) =
           Some (Coordinates (Some (if values' gps_lat_ref = Ascii ''N'' then x else - x))
                             (Some (if values' gps_lon_ref = Ascii ''E'' then y else - y)))"
proof -
  let ?st = "camera_block tgs (basic_block E fb empty_image_info,
                \<lparr>gps_data = False, camera_info = False, timestamp = False\<rparr>)"
  have "gps_block tgs ?st =
      Inr ((fst ?st)\<lparr>gps := Some (Coordinates
               (Some (if values' gps_lat_ref = Ascii ''N'' then x else - x))
               (Some (if values' gps_lon_ref = Ascii ''E'' then y else - y)))\<rparr>,
           (snd ?st)\<lparr>gps_data := True\<rparr>)"
    using assms(2-7) by (simp add: gps_block_four py_neg_def)
  from extract_image_exif_ok [OF assms(1) this] show ?thesis by simp
qed

theorem gps_sign_convention_witness:
  "gps (extract_image_metadata
          (example_env ''image/jpeg'' (Inr example_image)
             (Inr (gps_tags (Ratios [(40, 1), (26, 1), (46, 1)]) ''S''
                            (Ratios [(79, 1), (58, 1), (36, 1)]) ''E''))) []) =
     Some (Coordinates (Some (- (72803 / 1800))) (Some (23993 / 300)))"
  using gps_sign_convention
    [of "example_env ''image/jpeg'' (Inr example_image)
             (Inr (gps_tags (Ratios [(40, 1), (26, 1), (46, 1)]) ''S''
                            (Ratios [(79, 1), (58, 1), (36, 1)]) ''E''))" "[]"
        "gps_tags (Ratios [(40, 1), (26, 1), (46, 1)]) ''S''
                            (Ratios [(79, 1), (58, 1), (36, 1)]) ''E''"
        "\<lparr>printable = ''[lat]'', values' = Ratios [(40, 1), (26, 1), (46, 1)]\<rparr>"
        "\<lparr>printable = ''S'', values' = Ascii ''S''\<rparr>"
        "\<lparr>printable = ''[lon]'', values' = Ratios [(79, 1), (58, 1), (36, 1)]\<rparr>"
        "\<lparr>printable = ''E'', values' = Ascii ''E''\<rparr>"
        "72803 / 1800" "23993 / 300"]
  by (simp add: example_env_def gps_tags_def convert_to_degrees_def ratio_div_def)

text \<open>
  Claim C10. There is an image on which the coordinate object holds a null: all four raw
  GPS tags are present, the latitude is malformed and its reference is \<^verbatim>\<open>N\<close>, the
  \<open>gps\<close> entry is a coordinate object with a null latitude and \<open>gps_data\<close> is true;
  and likewise for a malformed longitude with reference \<^verbatim>\<open>E\<close>.
\<close>

theorem null_coordinate_with_gps_presence:
  "(\<exists>E fb tgs gps_lat gps_lat_ref gps_lon gps_lon_ref lon p.
      process_file E fb = Inr tgs \<and>
      tgs ''GPS GPSLatitude'' = Some gps_lat \<and> tgs ''GPS GPSLatitudeRef'' = Some gps_lat_ref \<and>
      tgs ''GPS GPSLongitude'' = Some gps_lon \<and> tgs ''GPS GPSLongitudeRef'' = Some gps_lon_ref \<and>
      convert_to_degrees (values' gps_lat) = None \<and> values' gps_lat_ref = Ascii ''N'' \<and>
      gps (extract_image_metadata E fb) = Some (Coordinates None lon) \<and>
      presence_report (extract_image_metadata E fb) = Some p \<and> gps_data p) \<and>
   (\<exists>E fb tgs gps_lat gps_lat_ref gps_lon gps_lon_ref lat p.
      process_file E fb = Inr tgs \<and>
      tgs ''GPS GPSLatitude'' = Some gps_lat \<and> tgs ''GPS GPSLatitudeRef'' = Some gps_lat_ref \<and>
      tgs ''GPS GPSLongitude'' = Some gps_lon \<and> tgs ''GPS GPSLongitudeRef'' = Some gps_lon_ref \<and>
      convert_to_degrees (values' gps_lon) = None \<and> values' gps_lon_ref = Ascii ''E'' \<and>
      gps (extract_image_metadata E fb) = Some (Coordinates lat None) \<and>
      presence_report (extract_image_metadata E fb) = Some p \<and> gps_data p)"
proof (rule conjI)
  let ?E = "example_env ''image/jpeg'' (Inr example_image) (Inr zero_den_north_tags)"
  have "process_file ?E [] = Inr zero_den_north_tags" by (simp add: example_env_def)
  moreover have "zero_den_north_tags ''GPS GPSLatitude'' =
      Some \<lparr>printable = ''[lat]'', values' = Ratios [(40, 1), (26, 1), (46, 0)]\<rparr>"
    and "zero_den_north_tags ''GPS GPSLatitudeRef'' = Some \<lparr>printable = ''N'', values' = Ascii ''N''\<rparr>"
    and "zero_den_north_tags ''GPS GPSLongitude'' =
      Some \<lparr>printable = ''[lon]'', values' = Ratios [(79, 1), (58, 1), (36, 1)]\<rparr>"
    and "zero_den_north_tags ''GPS GPSLongitudeRef'' = Some \<lparr>printable = ''W'', values' = Ascii ''W''\<rparr>"
    by (simp_all add: zero_den_north_tags_def gps_tags_def)
  moreover have "convert_to_degrees (Ratios [(40, 1), (26, 1), (46, 0)]) = None"
    by (simp add: convert_to_degrees_def ratio_div_def)
  ultimately show "\<exists>E fb tgs gps_lat gps_lat_ref gps_lon gps_lon_ref lon p.
      process_file E fb = Inr tgs \<and>
      tgs ''GPS GPSLatitude'' = Some gps_lat \<and> tgs ''GPS GPSLatitudeRef'' = Some gps_lat_ref \<and>
      tgs ''GPS GPSLongitude'' = Some gps_lon \<and> tgs ''GPS GPSLongitudeRef'' = Some gps_lon_ref \<and>
      convert_to_degrees (values' gps_lat) = None \<and> values' gps_lat_ref = Ascii ''N'' \<and>
      gps (extract_image_metadata E fb) = Some (Coordinates None lon) \<and>
      presence_report (extract_image_metadata E fb) = Some p \<and> gps_data p"
    using null_coordinate_examples(1,2)
    by (intro exI [of _ ?E] exI [of _ "[]"] exI [of _ zero_den_north_tags]
        exI [of _ "\<lparr>printable = ''[lat]'', values' = Ratios [(40, 1), (26, 1), (46, 0)]\<rparr>"]
        exI [of _ "\<lparr>printable = ''N'', values' = Ascii ''N''\<rparr>"]
        exI [of _ "\<lparr>printable = ''[lon]'', values' = Ratios [(79, 1), (58, 1), (36, 1)]\<rparr>"]
        exI [of _ "\<lparr>printable = ''W'', values' = Ascii ''W''\<rparr>"]
        exI [of _ "Some (- (23993 / 300))"]
        exI [of _ "\<lparr>gps_data = True, camera_info = False, timestamp = False\<rparr>"]) simp
next
  let ?E = "example_env ''image/jpeg'' (Inr example_image) (Inr short_east_tags)"
  have "process_file ?E [] = Inr short_east_tags" by (simp add: example_env_def)
  moreover have "short_east_tags ''GPS GPSLatitude'' =
      Some \<lparr>printable = ''[lat]'', values' = Ratios [(40, 1), (26, 1), (46, 1)]\<rparr>"
    and "short_east_tags ''GPS GPSLatitudeRef'' = Some \<lparr>printable = ''S'', values' = Ascii ''S''\<rparr>"
    and "short_east_tags ''GPS GPSLongitude'' =
      Some \<lparr>printable = ''[lon]'', values' = Ratios [(79, 1), (58, 1)]\<rparr>"
    and "short_east_tags ''GPS GPSLongitudeRef'' = Some \<lparr>printable = ''E'', values' = Ascii ''E''\<rparr>"
    by (simp_all add: short_east_tags_def gps_tags_def)
  moreover have "convert_to_degrees (Ratios [(79, 1), (58, 1)]) = None"
    by (simp add: convert_to_degrees_def ratio_div_def)
  ultimately show "\<exists>E fb tgs gps_lat gps_lat_ref gps_lon gps_lon_ref lat p.
      process_file E fb = Inr tgs \<and>
      tgs ''GPS GPSLatitude'' = Some gps_lat \<and> tgs ''GPS GPSLatitudeRef'' = Some gps_lat_ref \<and>
      tgs ''GPS GPSLongitude'' = Some gps_lon \<and> tgs ''GPS GPSLongitudeRef'' = Some gps_lon_ref \<and>
      convert_to_degrees (values' gps_lon) = None \<and> values' gps_lon_ref = Ascii ''E'' \<and>
      gps (extract_image_metadata E fb) = Some (Coordinates lat None) \<and>
      presence_report (extract_image_metadata E fb) = Some p \<and> gps_data p"
    using null_coordinate_examples(3,4)
    by (intro exI [of _ ?E] exI [of _ "[]"] exI [of _ short_east_tags]
        exI [of _ "\<lparr>printable = ''[lat]'', values' = Ratios [(40, 1), (26, 1), (46, 1)]\<rparr>"]
        exI [of _ "\<lparr>printable = ''S'', values' = Ascii ''S''\<rparr>"]
        exI [of _ "\<lparr>printable = ''[lon]'', values' = Ratios [(79, 1), (58, 1)]\<rparr>"]
        exI [of _ "\<lparr>printable = ''E'', values' = Ascii ''E''\<rparr>"]
        exI [of _ "Some (- (72803 / 1800))"]
        exI [of _ "\<lparr>gps_data = True, camera_info = False, timestamp = False\<rparr>"]) simp
qed

subsection \<open>Isolation of failures in the image section\<close>

text \<open>
  Claim C8. When Pillow opens the image, \<open>format\<close>, \<open>size\<close> and \<open>mode\<close> are in the
  image section whatever the EXIF statements do; a failure of the EXIF parser is recorded
  as \<open>exif_error\<close>; a failure of Pillow is recorded as \<open>image_error\<close> and the tags
  the parser returns are still extracted; for an image mime the report holds the image
  section and no other section.
\<close>

theorem image_section_isolation:
  "(\<forall>img. image_open E fb = Inr img \<longrightarrow>
       format (extract_image_metadata E fb) = Some (img_format img) \<and>
       size' (extract_image_metadata E fb) = Some (img_size img) \<and>
       mode (extract_image_metadata E fb) = Some (img_mode img) \<and>
       image_error (extract_image_metadata E fb) = None) \<and>
   (\<forall>e. process_file E fb = Inl e \<longrightarrow> exif_error (extract_image_metadata E fb) = Some e) \<and>
   (\<forall>e. image_open E fb = Inl e \<longrightarrow>
       image_error (extract_image_metadata E fb) = Some e \<and>
       (\<forall>tgs. process_file E fb = Inr tgs \<longrightarrow>
          raw_exif (extract_image_metadata E fb) = Some (\<lambda>k. map_option printable (tgs k)) \<and>
          camera_make (extract_image_metadata E fb) =
            Some (py_or (map_option printable (tgs ''Image Make'')) ''Unknown'') \<and>
          camera_model (extract_image_metadata E fb) =
            Some (py_or (map_option printable (tgs ''Image Model'')) ''Unknown'') \<and>
          datetime_original (extract_image_metadata E fb) =
            Some (py_or (map_option printable (tgs ''EXIF DateTimeOriginal'')) ''Unknown''))) \<and>
   (\<forall>m. sniff_mime E fb = Inr m \<and> startswith m ''image/'' \<longrightarrow>
       (\<exists>r. extract_metadata E fb = Inr r \<and>
          image' r = Some (extract_image_metadata E fb) \<and>
          pdf r = None \<and> docx r = None \<and> audio r = None \<and> note' r = None))"
proof -
  have basic: "\<And>img. image_open E fb = Inr img \<Longrightarrow>
       format (extract_image_metadata E fb) = Some (img_format img) \<and>
       size' (extract_image_metadata E fb) = Some (img_size img) \<and>
       mode (extract_image_metadata E fb) = Some (img_mode img) \<and>
       image_error (extract_image_metadata E fb) = None"
    by (simp add: extract_image_basic basic_block_def empty_image_info_def)
  have exif: "\<And>e. process_file E fb = Inl e \<Longrightarrow> exif_error (extract_image_metadata E fb) = Some e"
    by (simp add: extract_image_metadata_def exif_block_def Let_def)
  have img: "\<And>e. image_open E fb = Inl e \<Longrightarrow> image_error (extract_image_metadata E fb) = Some e"
    by (simp add: extract_image_basic basic_block_def empty_image_info_def)
  have disp: "\<And>m. sniff_mime E fb = Inr m \<Longrightarrow> startswith m ''image/'' \<Longrightarrow>
       \<exists>r. extract_metadata E fb = Inr r \<and>
          image' r = Some (extract_image_metadata E fb) \<and>
          pdf r = None \<and> docx r = None \<and> audio r = None \<and> note' r = None"
    by (simp add: extract_metadata_def Let_def)
  from basic exif img disp extract_image_camera(1-4) [of E fb] show ?thesis by blast
qed

theorem image_section_isolation_witness:
  "process_file exif_fail_env [] = Inl ''corrupt EXIF'' \<and>
   image_open exif_fail_env [] = Inr example_image \<and>
   sniff_mime exif_fail_env [] = Inr ''image/jpeg'' \<and>
   startswith ''image/jpeg'' ''image/'' \<and>
   exif_error (extract_image_metadata exif_fail_env []) = Some ''corrupt EXIF'' \<and>
   format (extract_image_metadata exif_fail_env []) = Some (Some ''JPEG'') \<and>
   size' (extract_image_metadata exif_fail_env []) = Some (640, 480) \<and>
   mode (extract_image_metadata exif_fail_env []) = Some ''RGB'' \<and>
   (\<exists>r. extract_metadata exif_fail_env [] = Inr r \<and>
      image' r = Some (extract_image_metadata exif_fail_env []) \<and> pdf r = None) \<and>
   image_open image_fail_env [] = Inl ''cannot identify image file'' \<and>
   process_file image_fail_env [] = Inr camera_tags \<and>
   image_error (extract_image_metadata image_fail_env []) = Some ''cannot identify image file'' \<and>
   camera_make (extract_image_metadata image_fail_env []) = Some ''Canon'' \<and>
   camera_model (extract_image_metadata image_fail_env []) = Some ''Unknown''"
  using image_section_isolation [of exif_fail_env "[]"] image_section_isolation [of image_fail_env "[]"]
  by (auto simp: exif_fail_env_def image_fail_env_def example_env_def example_image_def
      sniff_mime_def startswith_def camera_tags_def py_or_def)

subsection \<open>The summary\<close>

text \<open>
  Claim C9 as stated fails: when the EXIF parser raises, no derived value exists, the
  summary's camera is \<^verbatim>\<open>None None\<close> and its other three values are null, neither
  \<^verbatim>\<open>Unknown\<close> nor a coordinate nor the no-data marker.
\<close>

theorem summary_counterexample:
  "sniff_mime exif_fail_env [] = Inr ''image/jpeg'' \<and>
   startswith ''image/jpeg'' ''image/'' \<and>
   process_file exif_fail_env [] = Inl ''corrupt EXIF'' \<and>
   map_sum id summary (extract_metadata exif_fail_env []) =
     Inr (Some \<lparr>Camera = ''None None'', Taken_On = None, Software = None, GPS = None\<rparr>) \<and>
   map_sum id summary (extract_metadata exif_fail_env []) \<noteq>
     Inr (Some \<lparr>Camera = ''Unknown Unknown'', Taken_On = Some ''Unknown'',
                Software = Some ''Unknown'', GPS = Some (Text ''No GPS data found'')\<rparr>)"
  by (simp add: exif_fail_env_def example_env_def extract_metadata_def sniff_mime_def
      startswith_def extract_image_metadata_def exif_block_def basic_block_def
      empty_image_info_def example_image_def py_str_def Let_def)

text \<open>
  Claim C9, amended. For a buffer sniffed as an image the summary repeats the image
  section: \<open>Taken On\<close>, \<open>Software\<close> and \<open>GPS\<close> are the section's
  \<open>datetime_original\<close>, \<open>software\<close> and \<open>gps\<close> entries (null where the entry is
  absent), and \<open>Camera\<close> is the \<open>camera_make\<close> and \<open>camera_model\<close> entries joined
  by a space (an absent entry prints as \<^verbatim>\<open>None\<close>). When the EXIF parser returns
  tags, make, model and capture time are the tag texts, or \<^verbatim>\<open>Unknown\<close> when the tag
  is absent or empty, and the software is the tag text, or \<^verbatim>\<open>Unknown\<close> when the tag
  is absent; when in addition no \<open>exif_error\<close> is recorded, \<open>gps\<close> is a coordinate
  object or the marker \<^verbatim>\<open>No GPS data found\<close>.
\<close>

theorem summary_of_image_section:
  "sniff_mime E fb = Inr m \<and> startswith m ''image/'' \<longrightarrow>
     (\<exists>r. extract_metadata E fb = Inr r \<and>
        summary r =
          Some \<lparr>Camera = py_str (camera_make (extract_image_metadata E fb)) @ '' '' @
                          py_str (camera_model (extract_image_metadata E fb)),
                Taken_On = datetime_original (extract_image_metadata E fb),
                Software = software (extract_image_metadata E fb),
                GPS = gps (extract_image_metadata E fb)\<rparr>) \<and>
     (\<forall>tgs. process_file E fb = Inr tgs \<longrightarrow>
        camera_make (extract_image_metadata E fb) =
          Some (py_or (map_option printable (tgs ''Image Make'')) ''Unknown'') \<and>
        camera_model (extract_image_metadata E fb) =
          Some (py_or (map_option printable (tgs ''Image Model'')) ''Unknown'') \<and>
        datetime_original (extract_image_metadata E fb) =
          Some (py_or (map_option printable (tgs ''EXIF DateTimeOriginal'')) ''Unknown'') \<and>
        software (extract_image_metadata E fb) =
          Some (case tgs ''Image Software'' of None \<Rightarrow> ''Unknown'' | Some t \<Rightarrow> printable t) \<and>
        (exif_error (extract_image_metadata E fb) = None \<longrightarrow>
           gps (extract_image_metadata E fb) = Some (Text ''No GPS data found'') \<or>
           (\<exists>lat lon. gps (extract_image_metadata E fb) = Some (Coordinates lat lon))))"
proof -
  have "sniff_mime E fb = Inr m \<Longrightarrow> startswith m ''image/'' \<Longrightarrow>
     \<exists>r. extract_metadata E fb = Inr r \<and>
        summary r =
          Some \<lparr>Camera = py_str (camera_make (extract_image_metadata E fb)) @ '' '' @
                          py_str (camera_model (extract_image_metadata E fb)),
                Taken_On = datetime_original (extract_image_metadata E fb),
                Software = software (extract_image_metadata E fb),
                GPS = gps (extract_image_metadata E fb)\<rparr>"
    by (simp add: extract_metadata_def Let_def)
  with extract_image_camera(2-5) [of E fb] extract_image_gps_shape [of E fb]
  show ?thesis by blast
qed

theorem summary_of_image_section_witness:
  "sniff_mime image_fail_env [] = Inr ''image/jpeg'' \<and>
   startswith ''image/jpeg'' ''image/'' \<and>
   process_file image_fail_env [] = Inr camera_tags \<and>
   exif_error (extract_image_metadata image_fail_env []) = None \<and>
   (\<exists>r. extract_metadata image_fail_env [] = Inr r \<and>
      summary r =
        Some \<lparr>Camera = ''Canon Unknown'', Taken_On = Some ''Unknown'',
              Software = Some ''Unknown'', GPS = Some (Text ''No GPS data found'')\<rparr>)"
proof -
  have a: "sniff_mime image_fail_env [] = Inr ''image/jpeg'' \<and> startswith ''image/jpeg'' ''image/''"
    by (simp add: image_fail_env_def example_env_def sniff_mime_def startswith_def)
  have b: "process_file image_fail_env [] = Inr camera_tags"
    by (simp add: image_fail_env_def example_env_def)
  have c: "exif_error (extract_image_metadata image_fail_env []) = None"
    by (simp add: image_fail_env_def example_env_def extract_image_metadata_def exif_block_def
        camera_block_def gps_block_def basic_block_def empty_image_info_def camera_tags_def Let_def)
  have d: "gps (extract_image_metadata image_fail_env []) = Some (Text ''No GPS data found'')"
    by (simp add: image_fail_env_def example_env_def extract_image_metadata_def exif_block_def
        camera_block_def gps_block_def basic_block_def empty_image_info_def camera_tags_def Let_def)
  from summary_of_image_section [of image_fail_env "[]" "''image/jpeg''"] a b c d show ?thesis
    by (auto simp: camera_tags_def py_or_def py_str_def)
qed

subsection \<open>Stripping\<close>

text \<open>
  Claim C6. For a buffer that Pillow opens and loads, the copy's \<open>info\<close> is emptied
  first. A PNG is then saved as PNG with \<open>optimize\<close> and no conversion; every other
  format (JPEG, an absent format, anything else) is saved as JPEG with quality 95 and
  \<open>optimize\<close>, after a conversion to RGB when the mode is RGBA, LA or P.
\<close>

theorem strip_reencode_policy:
  assumes "image_open E fb = Inr img" and "image_copy E img = Inr copied"
  shows "img_info (copied\<lparr>img_info := Map.empty\<rparr>) = Map.empty \<and>
    strip_image_metadata E fb =
      reraise
       (if upper (py_or (img_format img) ''JPEG'') = ''PNG'' then
          image_save E (copied\<lparr>img_info := Map.empty\<rparr>)
            \<lparr>save_format = ''PNG'', quality = None, optimize = True\<rparr>
        else if img_mode copied = ''RGBA'' \<or> img_mode copied = ''LA'' \<or> img_mode copied = ''P''
        then (case image_convert E (copied\<lparr>img_info := Map.empty\<rparr>) ''RGB'' of
                Inl e \<Rightarrow> Inl e
              | Inr c \<Rightarrow>
                  image_save E c \<lparr>save_format = ''JPEG'', quality = Some 95, optimize = True\<rparr>)
        else image_save E (copied\<lparr>img_info := Map.empty\<rparr>)
               \<lparr>save_format = ''JPEG'', quality = Some 95, optimize = True\<rparr>)"
  using assms by (simp add: strip_image_metadata_def strip_body_def reencode_policy Let_def)

theorem strip_reencode_policy_witness:
  "image_open (example_env ''image/png'' (Inr png_rgba_image) (Inl ''no EXIF'')) [] =
     Inr png_rgba_image \<and>
   strip_image_metadata (example_env ''image/png'' (Inr png_rgba_image) (Inl ''no EXIF'')) [] =
     Inr (map of_char ''PNG RGBA'') \<and>
   image_open (example_env ''image/gif'' (Inr gif_palette_image) (Inl ''no EXIF'')) [] =
     Inr gif_palette_image \<and>
   strip_image_metadata (example_env ''image/gif'' (Inr gif_palette_image) (Inl ''no EXIF'')) [] =
     Inr (map of_char ''JPEG RGB'')"
  using
    strip_reencode_policy [of "example_env ''image/png'' (Inr png_rgba_image) (Inl ''no EXIF'')"
      "[]" png_rgba_image "png_rgba_image\<lparr>img_format := None\<rparr>"]
    strip_reencode_policy [of "example_env ''image/gif'' (Inr gif_palette_image) (Inl ''no EXIF'')"
      "[]" gif_palette_image "gif_palette_image\<lparr>img_format := None\<rparr>"]
  by (simp add: example_env_def png_rgba_image_def gif_palette_image_def py_or_def
      upper_examples reraise_def)

text \<open>
  Claim C7 as stated fails in its parenthesis: stripping is not the only operation that
  lets a failure out. On a host where libmagic raises, \<open>sniff_mime\<close> and
  \<open>extract_metadata\<close> raise on a buffer that \<open>strip_image_metadata\<close> cleans.
\<close>

theorem sniffer_failure_counterexample:
  "sniff_mime sniff_fail_env [0xFF, 0xD8] = Inl ''could not find any valid magic files!'' \<and>
   extract_metadata sniff_fail_env [0xFF, 0xD8] = Inl ''could not find any valid magic files!'' \<and>
   strip_image_metadata sniff_fail_env [0xFF, 0xD8] = Inr (map of_char ''JPEG RGB'')"
  by (simp add: extract_metadata_def sniff_mime_def sniff_fail_env_def example_env_def
      strip_image_metadata_def strip_body_def reencode_policy reraise_def example_image_def
      py_or_def upper_examples)

text \<open>
  Claim C7, amended. \<open>strip_image_metadata\<close> raises exactly when opening, loading or
  re-encoding raises, and then it raises the one error \<open>RuntimeError\<close> whose text
  carries the cause; it returns the encoder's output exactly when all three succeed. The
  only other failure that leaves the core is an exception of the sniffer, which
  \<open>extract_metadata\<close> passes on unchanged: it raises exactly when \<open>sniff_mime\<close>
  does, and no failure of another decoder makes it raise. The input buffer is an
  immutable \<^verbatim>\<open>bytes\<close> value, passed by value here.
\<close>

theorem strip_failure_iff:
  "(strip_image_metadata E fb = Inl err \<longleftrightarrow>
      (\<exists>e. err = RuntimeError (''Failed to strip metadata: '' @ e) \<and>
           (image_open E fb = Inl e \<or>
            (\<exists>img. image_open E fb = Inr img \<and>
               (image_copy E img = Inl e \<or>
                (\<exists>copied. image_copy E img = Inr copied \<and>
                   reencode E (upper (py_or (img_format img) ''JPEG''))
                     (copied\<lparr>img_info := Map.empty\<rparr>) = Inl e)))))) \<and>
   (strip_image_metadata E fb = Inr out \<longleftrightarrow>
      (\<exists>img copied. image_open E fb = Inr img \<and> image_copy E img = Inr copied \<and>
         reencode E (upper (py_or (img_format img) ''JPEG''))
           (copied\<lparr>img_info := Map.empty\<rparr>) = Inr out)) \<and>
   (extract_metadata E fb = Inl x \<longleftrightarrow> sniff_mime E fb = Inl x) \<and>
   (sniff_mime E fb = Inl x \<longleftrightarrow> from_buffer E (take 65536 fb) = Inl x)"
proof -
  have st_iff: "(strip_image_metadata E fb = Inl err \<longleftrightarrow>
      (\<exists>e. err = RuntimeError (''Failed to strip metadata: '' @ e) \<and>
           (image_open E fb = Inl e \<or>
            (\<exists>img. image_open E fb = Inr img \<and>
               (image_copy E img = Inl e \<or>
                (\<exists>copied. image_copy E img = Inr copied \<and>
                   reencode E (upper (py_or (img_format img) ''JPEG''))
                     (copied\<lparr>img_info := Map.empty\<rparr>) = Inl e)))))) \<and>
   (strip_image_metadata E fb = Inr out \<longleftrightarrow>
      (\<exists>img copied. image_open E fb = Inr img \<and> image_copy E img = Inr copied \<and>
         reencode E (upper (py_or (img_format img) ''JPEG''))
           (copied\<lparr>img_info := Map.empty\<rparr>) = Inr out))"
    by (cases err)
       (auto simp: strip_image_metadata_def strip_body_def reraise_def Let_def split: sum.splits)
  have ex_iff: "extract_metadata E fb = Inl x \<longleftrightarrow> sniff_mime E fb = Inl x"
    by (simp add: extract_metadata_def split: sum.splits)
  have sn_iff: "sniff_mime E fb = Inl x \<longleftrightarrow> from_buffer E (take 65536 fb) = Inl x"
    by (simp add: sniff_mime_def)
  from st_iff ex_iff sn_iff show ?thesis by blast
qed

theorem strip_failure_iff_witness:
  "strip_image_metadata (example_env ''image/jpeg'' (Inl ''cannot identify image file'') (Inl ''no EXIF'')) [] =
     Inl (RuntimeError ''Failed to strip metadata: cannot identify image file'') \<and>
   image_open (example_env ''image/jpeg'' (Inl ''cannot identify image file'') (Inl ''no EXIF'')) [] =
     Inl ''cannot identify image file'' \<and>
   (\<forall>x. extract_metadata (example_env ''image/jpeg'' (Inl ''cannot identify image file'') (Inl ''no EXIF'')) [] \<noteq> Inl x)"
  using strip_failure_iff [of "example_env ''image/jpeg'' (Inl ''cannot identify image file'') (Inl ''no EXIF'')"
      "[]" "RuntimeError ''Failed to strip metadata: cannot identify image file''" "[]"]
  by (simp add: example_env_def sniff_mime_def)

end
